theory Spec2Isabelle
  imports Main "HOL-Library.Word" "HOL-Library.Sublist"
begin

section \<open>The webdriver application-server harness (webdriver/webapp_server.go)\<close>

text \<open>
  The file supervises one \<^verbatim>\<open>dev_appserver.py\<close> child process: it starts it, reads its
  stderr line by line to learn two URLs, waits for a warm-up request to appear in the log,
  and later stops it through the admin server's \<^verbatim>\<open>/quit\<close> handler.

  Everything the Go code obtains from outside (the result of \<^verbatim>\<open>cmd.Start\<close>, the lines a
  \<^verbatim>\<open>bufio.Scanner\<close> yields, which case of a \<^verbatim>\<open>select\<close> fires, the result of
  \<^verbatim>\<open>http.Get\<close>) is an explicit argument of the model; everything it does to the outside
  (start, kill, wait, HTTP request) is recorded in a list of actions.
\<close>

subsection \<open>Errors, panics and actions\<close>

text \<open>
  A Go \<^verbatim>\<open>error\<close> is modelled by its message; \<^verbatim>\<open>nil\<close> is \<open>None\<close>. The code builds its
  own errors with \<^verbatim>\<open>errors.New\<close> and with \<^verbatim>\<open>fmt.Errorf\<close> and the verb \<^verbatim>\<open>%v\<close>, which keeps
  nothing of the inner error but its message.
\<close>

type_synonym error = string

datatype 'a result = Return 'a | Panic string

text \<open>\<^verbatim>\<open>time.Duration\<close> counts nanoseconds.\<close>

type_synonym Duration = int

definition Second :: Duration where
  "Second = 1000000000"

datatype action =
    cmd_Start
  | cmd_Wait
  | Process_Kill
  | time_After Duration
  | http_Get string
  | Body_Close
  | populate_Start "string list"
  | populate_Wait

subsection \<open>Library functions taken as parameters\<close>

text \<open>
  \<^verbatim>\<open>url.Parse\<close>, \<^verbatim>\<open>(*url.URL).String\<close> and the quoting of the verb \<^verbatim>\<open>%q\<close> belong to the
  Go standard library. They are parameters of the model; \<open>'u\<close> is the type of parsed URLs.
\<close>

record 'u stdlib =
  url_Parse :: "string \<Rightarrow> error + 'u"
  url_String :: "'u \<Rightarrow> string"
  strconv_Quote :: "string \<Rightarrow> string"

subsection \<open>Formatting with \<^verbatim>\<open>%d\<close>\<close>

definition digit :: "nat \<Rightarrow> char" where
  "digit d = ''0123456789'' ! (d mod 10)"

fun fmt_nat :: "nat \<Rightarrow> string" where
  "fmt_nat n = (if n < 10 then [digit n] else fmt_nat (n div 10) @ [digit (n mod 10)])"

declare fmt_nat.simps [simp del]

definition fmt_d :: "int \<Rightarrow> string" where
  "fmt_d k = (if k < 0 then CHR ''-'' # fmt_nat (nat (- k)) else fmt_nat (nat k))"

subsection \<open>The three regular expressions\<close>

text \<open>
  Each pattern of the file is a literal text, followed for two of them by the group
  \<^verbatim>\<open>(\S+)\<close>. \<^verbatim>\<open>\s\<close> is the class \<^verbatim>\<open>[\t\n\f\r ]\<close> of RE2.
\<close>

definition isSpace :: "char \<Rightarrow> bool" where
  "isSpace c = (c \<in> set [CHR 0x09, CHR 0x0A, CHR 0x0C, CHR 0x0D, CHR 0x20])"

datatype regexp = Regexp (literal: string) (group: bool)

definition hostRE :: regexp where
  \<open>hostRE = Regexp ''Starting module "default" running at: '' True\<close>

definition adminURLRE :: regexp where
  "adminURLRE = Regexp ''Starting admin server at: '' True"

definition readyRE :: regexp where
  "readyRE = Regexp ''GET /_ah/warmup'' False"

text \<open>
  A match that starts at the first character of the text: the whole match, then the group.
  \<^verbatim>\<open>\S+\<close> is greedy and needs one character at least.
\<close>

definition match_here :: "regexp \<Rightarrow> string \<Rightarrow> string list option" where
  "match_here re s =
     (if \<not> prefix (literal re) s then None
      else if \<not> group re then Some [literal re]
      else (let tok = takeWhile (\<lambda>c. \<not> isSpace c) (drop (length (literal re)) s)
            in if tok = [] then None else Some [literal re @ tok, tok]))"

text \<open>The leftmost match, as \<^verbatim>\<open>FindStringSubmatch\<close> returns it; \<open>None\<close> is \<^verbatim>\<open>nil\<close>.\<close>

fun FindStringSubmatch :: "regexp \<Rightarrow> string \<Rightarrow> string list option" where
  "FindStringSubmatch re [] = match_here re []"
| "FindStringSubmatch re (c # cs) =
     (case match_here re (c # cs) of
        Some m \<Rightarrow> Some m
      | None \<Rightarrow> FindStringSubmatch re cs)"

subsection \<open>The two kinds of server\<close>

record remoteAppServer =
  r_host :: string

text \<open>
  \<open>process\<close> says whether \<^verbatim>\<open>cmd.Process\<close> is set, which \<^verbatim>\<open>cmd.Start\<close> does when it
  succeeds. The ports are Go \<^verbatim>\<open>int\<close>s, 64 bits wide on the platforms the harness runs on.
\<close>

record 'u devAppServerInstance =
  cmd :: "string list"
  process :: bool
  startupTimeout :: Duration
  host :: string
  port :: "64 word"
  apiPort :: "64 word"
  baseURL :: "'u option"
  adminURL :: "'u option"

datatype 'u AppServer =
    Remote remoteAppServer
  | Dev "'u devAppServerInstance option"

definition remote_GetWebappURL :: "remoteAppServer \<Rightarrow> string \<Rightarrow> string" where
  "remote_GetWebappURL i path = ''https://'' @ r_host i @ path"

definition remote_Close :: "remoteAppServer \<Rightarrow> error option" where
  "remote_Close i = None"

definition GetWebappURL :: "'u stdlib \<Rightarrow> 'u devAppServerInstance \<Rightarrow> string \<Rightarrow> string" where
  "GetWebappURL L i path =
     (case baseURL i of
        Some u \<Rightarrow> url_String L u @ path
      | None \<Rightarrow> ''http://'' @ host i @ '':'' @ fmt_d (sint (port i)) @ path)"

subsection \<open>Reading the child's stderr\<close>

text \<open>
  A token is what one successful \<^verbatim>\<open>s.Scan()\<close> yields: the line \<^verbatim>\<open>s.Text()\<close>, and the
  value \<^verbatim>\<open>s.Err()\<close> has at that moment (a scanner whose reader has failed still hands out
  the lines it has buffered). A stream is a list of tokens and the value of \<^verbatim>\<open>s.Err()\<close>
  once \<^verbatim>\<open>s.Scan()\<close> has returned false, \<open>None\<close> at the end of a stream that was closed
  without a read error.
\<close>

type_synonym token = "string \<times> error option"

definition clean :: "string list \<Rightarrow> token list" where
  "clean ls = map (\<lambda>l. (l, None)) ls"

text \<open>
  The two capture blocks of the loop body. Each returns the instance and the error the
  goroutine would send on \<^verbatim>\<open>errc\<close> before returning.
\<close>

definition parse_failure :: "'u stdlib \<Rightarrow> string \<Rightarrow> error \<Rightarrow> error" where
  "parse_failure L m e = ''failed to parse URL '' @ strconv_Quote L m @ '': '' @ e"

definition capture_host ::
  "'u stdlib \<Rightarrow> 'u devAppServerInstance \<Rightarrow> string \<Rightarrow> 'u devAppServerInstance \<times> error option" where
  "capture_host L i text =
     (case FindStringSubmatch hostRE text of
        None \<Rightarrow> (i, None)
      | Some m \<Rightarrow>
          (case url_Parse L (m ! 1) of
             Inl e \<Rightarrow> (i, Some (parse_failure L (m ! 1) e))
           | Inr u \<Rightarrow> (i\<lparr>baseURL := Some u\<rparr>, None)))"

definition capture_admin ::
  "'u stdlib \<Rightarrow> 'u devAppServerInstance \<Rightarrow> string \<Rightarrow> 'u devAppServerInstance \<times> error option" where
  "capture_admin L i text =
     (case FindStringSubmatch adminURLRE text of
        None \<Rightarrow> (i, None)
      | Some m \<Rightarrow>
          (case url_Parse L (m ! 1) of
             Inl e \<Rightarrow> (i, Some (parse_failure L (m ! 1) e))
           | Inr u \<Rightarrow> (i\<lparr>adminURL := Some u\<rparr>, None)))"

text \<open>
  The goroutine of \<^verbatim>\<open>AwaitReady\<close>: the instance as it leaves it, and the value it sends
  on \<^verbatim>\<open>errc\<close>.
\<close>

fun scan_stderr ::
  "'u stdlib \<Rightarrow> 'u devAppServerInstance \<Rightarrow> token list \<Rightarrow> error option
     \<Rightarrow> 'u devAppServerInstance \<times> error option" where
  "scan_stderr L i [] final = (i, final)"
| "scan_stderr L i ((text, serr) # rest) final =
     (if FindStringSubmatch readyRE text \<noteq> None then (i, serr)
      else (case capture_host L i text of
              (i1, Some e) \<Rightarrow> (i1, Some e)
            | (i1, None) \<Rightarrow>
                (case capture_admin L i1 text of
                   (i2, Some e) \<Rightarrow> (i2, Some e)
                 | (i2, None) \<Rightarrow> scan_stderr L i2 rest final)))"

subsection \<open>AwaitReady\<close>

text \<open>
  Which case of the \<^verbatim>\<open>select\<close> fires is decided outside the program. \<open>Timer n\<close>: the
  timer fires when the goroutine has consumed \<open>n\<close> tokens; \<open>Errc\<close>: the goroutine's value
  is received.
\<close>

datatype select_case = Timer nat | Errc

definition AwaitReady ::
  "'u stdlib \<Rightarrow> 'u devAppServerInstance \<Rightarrow> error option \<Rightarrow> token list \<Rightarrow> error option
     \<Rightarrow> select_case \<Rightarrow> 'u devAppServerInstance \<times> error option \<times> action list" where
  "AwaitReady L i start_err toks final sel =
     (case start_err of
        Some e \<Rightarrow> (i, Some e, [cmd_Start])
      | None \<Rightarrow>
          (let i0 = i\<lparr>process := True\<rparr> in
           case sel of
             Timer n \<Rightarrow>
               (fst (scan_stderr L i0 (take n toks) final),
                Some ''timeout starting child process'',
                [cmd_Start, time_After (startupTimeout i0)]
                  @ (if process i0 then [Process_Kill] else []))
           | Errc \<Rightarrow>
               (case scan_stderr L i0 toks final of
                  (i1, Some e) \<Rightarrow>
                    (i1, Some (''error reading web_server.sh process stderr: '' @ e),
                     [cmd_Start, time_After (startupTimeout i0)])
                | (i1, None) \<Rightarrow>
                    (if baseURL i1 = None
                     then (i1, Some ''unable to find webserver URL'',
                           [cmd_Start, time_After (startupTimeout i0)])
                     else (i1, None, [cmd_Start, time_After (startupTimeout i0)])))))"

subsection \<open>Close\<close>

text \<open>
  The second \<^verbatim>\<open>select\<close>: the grace timer fires, or \<^verbatim>\<open>cmd.Wait()\<close> has returned with the
  given value.
\<close>

datatype wait_case = GraceExpired | Exited "error option"

definition nil_dereference :: string where
  "nil_dereference = ''runtime error: invalid memory address or nil pointer dereference''"

definition Close ::
  "'u stdlib \<Rightarrow> 'u devAppServerInstance \<Rightarrow> error option \<Rightarrow> wait_case
     \<Rightarrow> error option result \<times> action list" where
  "Close L i get_err sel =
     (case adminURL i of
        None \<Rightarrow> (Panic nil_dereference, [cmd_Wait])
      | Some u \<Rightarrow>
          (case get_err of
             Some e \<Rightarrow>
               (if process i
                then (Return (Some (''unable to call /quit handler: '' @ e)),
                      [cmd_Wait, http_Get (url_String L u @ ''/quit''), Process_Kill])
                else (Panic nil_dereference,
                      [cmd_Wait, http_Get (url_String L u @ ''/quit'')]))
           | None \<Rightarrow>
               (case sel of
                  GraceExpired \<Rightarrow>
                    (if process i
                     then (Return (Some ''timeout killing child process''),
                           [cmd_Wait, http_Get (url_String L u @ ''/quit''), Body_Close,
                            time_After (15 * Second), Process_Kill])
                     else (Panic nil_dereference,
                           [cmd_Wait, http_Get (url_String L u @ ''/quit''), Body_Close,
                            time_After (15 * Second)]))
                | Exited e \<Rightarrow>
                    (Return e,
                     [cmd_Wait, http_Get (url_String L u @ ''/quit''), Body_Close,
                      time_After (15 * Second)]))))"

subsection \<open>Construction\<close>

text \<open>
  \<^verbatim>\<open>pickUnusedPort\<close> is defined in another file; its two results are arguments here, as
  are the results of \<^verbatim>\<open>filepath.Abs\<close> and of \<^verbatim>\<open>cmd.StderrPipe\<close>.
\<close>

definition newDevAppServer ::
  "64 word \<Rightarrow> 64 word \<Rightarrow> error + string \<Rightarrow> error option
     \<Rightarrow> ('u devAppServerInstance option \<times> error option) result" where
  "newDevAppServer p1 p2 abs_res pipe_err =
     (case abs_res of
        Inl e \<Rightarrow> Panic e
      | Inr absAppYAMLPath \<Rightarrow>
          (case pipe_err of
             Some e \<Rightarrow> Return (None, Some e)
           | None \<Rightarrow>
               Return (Some \<lparr>cmd = [''dev_appserver.py'',
                                     ''--port='' @ fmt_d (sint p1),
                                     ''--api_port='' @ fmt_d (sint p2),
                                     ''--admin_port='' @ fmt_d 0,
                                     ''--automatic_restart=false'',
                                     ''--support_datastore_emulator=false'',
                                     ''--skip_sdk_update_check=true'',
                                     ''--clear_datastore=true'',
                                     ''--datastore_consistency_policy=consistent'',
                                     ''--clear_search_indexes=true'',
                                     ''-A=wptdashboard'',
                                     absAppYAMLPath],
                             process = False,
                             startupTimeout = 90 * Second,
                             host = ''localhost'',
                             port = p1,
                             apiPort = p2,
                             baseURL = None,
                             adminURL = None\<rparr>, None)))"

definition addStaticData ::
  "'u devAppServerInstance \<Rightarrow> error option \<Rightarrow> error option \<Rightarrow> error option \<times> action list" where
  "addStaticData i start_err wait_err =
     (let args = [''go'', ''run'', ''../util/populate_dev_data.go'',
                  ''--local_host=localhost:'' @ fmt_d (sint (port i)),
                  ''--local_remote_api_host=localhost:'' @ fmt_d (sint (apiPort i)),
                  ''--remote_runs=false'',
                  ''--static_runs=true'']
      in case start_err of
           Some e \<Rightarrow> (Some e, [populate_Start args])
         | None \<Rightarrow> (wait_err, [populate_Start args, populate_Wait]))"

text \<open>What the surroundings answer during one call of \<^verbatim>\<open>NewWebserver\<close>.\<close>

record world =
  pickUnusedPort1 :: "64 word"
  pickUnusedPort2 :: "64 word"
  filepath_Abs :: "error + string"
  StderrPipe_err :: "error option"
  Start_err :: "error option"
  stderr_tokens :: "token list"
  stderr_final :: "error option"
  startup_select :: select_case
  populate_Start_err :: "error option"
  populate_Wait_err :: "error option"

definition NewWebserver ::
  "'u stdlib \<Rightarrow> bool \<Rightarrow> string \<Rightarrow> world
     \<Rightarrow> ('u AppServer \<times> error option) result \<times> action list" where
  "NewWebserver L staging remoteHost w =
     (if staging then (Return (Remote \<lparr>r_host = remoteHost\<rparr>, None), [])
      else
        (case newDevAppServer (pickUnusedPort1 w) (pickUnusedPort2 w) (filepath_Abs w)
                (StderrPipe_err w) of
           Panic msg \<Rightarrow> (Panic msg, [])
         | Return (app, Some e) \<Rightarrow> (Return (Dev app, Some e), [])
         | Return (None, None) \<Rightarrow> (Panic nil_dereference, [])
         | Return (Some app, None) \<Rightarrow>
             (case AwaitReady L app (Start_err w) (stderr_tokens w) (stderr_final w)
                     (startup_select w) of
                (app1, Some e, acts) \<Rightarrow> (Panic e, acts)
              | (app1, None, acts) \<Rightarrow>
                  (case addStaticData app1 (populate_Start_err w) (populate_Wait_err w) of
                     (Some e, acts2) \<Rightarrow> (Panic e, acts @ acts2)
                   | (None, acts2) \<Rightarrow> (Return (Dev (Some app1), None), acts @ acts2)))))"

subsection \<open>Values for running the model\<close>

text \<open>
  A captured URL parses when \<^verbatim>\<open>url.Parse\<close> accepts the group of the match; a line
  without a match has nothing to parse.
\<close>

definition capture_parses :: "'u stdlib \<Rightarrow> regexp \<Rightarrow> string \<Rightarrow> bool" where
  "capture_parses L re line =
     (case FindStringSubmatch re line of
        None \<Rightarrow> True
      | Some m \<Rightarrow> (case url_Parse L (m ! 1) of Inl e \<Rightarrow> False | Inr u \<Rightarrow> True))"

text \<open>
  A library instance for concrete runs. Its URL values are their own text. It knows the
  three URLs the examples use, which \<^verbatim>\<open>url.Parse\<close> accepts and \<^verbatim>\<open>String\<close> prints back
  unchanged; it is not asked about any other text.
\<close>

definition example_lib :: "string stdlib" where
  "example_lib =
     \<lparr>url_Parse = (\<lambda>s. if s \<in> set [''http://localhost:8080'', ''http://localhost:9999'',
                                     ''https://localhost:8080'']
                        then Inr s else Inl ''not one of the example URLs''),
      url_String = (\<lambda>u. u),
      strconv_Quote = (\<lambda>s. [CHR 0x22] @ s @ [CHR 0x22])\<rparr>"

text \<open>
  The instance \<open>newDevAppServer\<close> builds for the ports 8080 and 9090, and the same instance
  once both URLs have been read.
\<close>

definition example_instance :: "string devAppServerInstance" where
  "example_instance =
     \<lparr>cmd = [''dev_appserver.py'', ''--port=8080'', ''--api_port=9090'', ''--admin_port=0'',
             ''--automatic_restart=false'', ''--support_datastore_emulator=false'',
             ''--skip_sdk_update_check=true'', ''--clear_datastore=true'',
             ''--datastore_consistency_policy=consistent'', ''--clear_search_indexes=true'',
             ''-A=wptdashboard'', ''/wpt.fyi/webapp''],
      process = False, startupTimeout = 90000000000, host = ''localhost'',
      port = 8080, apiPort = 9090, baseURL = None, adminURL = None\<rparr>"

definition example_ready :: "string devAppServerInstance" where
  "example_ready = example_instance
     \<lparr>process := True, baseURL := Some ''http://localhost:8080'',
      adminURL := Some ''http://localhost:9999''\<rparr>"

text \<open>Lines of the kind \<^verbatim>\<open>dev_appserver.py\<close> writes to its stderr.\<close>

definition host_line :: string where
  \<open>host_line = ''Starting module "default" running at: http://localhost:8080''\<close>

definition https_line :: string where
  \<open>https_line = ''Starting module "default" running at: https://localhost:8080''\<close>

definition admin_line :: string where
  "admin_line = ''Starting admin server at: http://localhost:9999''"

definition ready_line :: string where
  \<open>ready_line = ''INFO default: "GET /_ah/warmup HTTP/1.1" 200 -''\<close>

definition both_line :: string where
  \<open>both_line = ''GET /_ah/warmup Starting module "default" running at: http://localhost:8080''\<close>

text \<open>
  Five runs of \<open>NewWebserver\<close>: the child cannot be started; the child starts and the
  seeding command exits with status 1; the stderr pipe cannot be created; the path of the
  application cannot be made absolute; everything succeeds.
\<close>

definition failing_world :: world where
  \<open>failing_world =
     \<lparr>pickUnusedPort1 = 8080, pickUnusedPort2 = 9090,
      filepath_Abs = Inr ''/wpt.fyi/webapp'',
      StderrPipe_err = None,
      Start_err = Some ''exec: "dev_appserver.py": executable file not found in $PATH'',
      stderr_tokens = [], stderr_final = None, startup_select = Errc,
      populate_Start_err = None, populate_Wait_err = None\<rparr>\<close>

definition example_world :: world where
  "example_world =
     \<lparr>pickUnusedPort1 = 8080, pickUnusedPort2 = 9090,
      filepath_Abs = Inr ''/wpt.fyi/webapp'',
      StderrPipe_err = None,
      Start_err = None,
      stderr_tokens = clean [admin_line, host_line, ready_line], stderr_final = None,
      startup_select = Errc,
      populate_Start_err = None, populate_Wait_err = Some ''exit status 1''\<rparr>"

definition pipe_failing_world :: world where
  "pipe_failing_world = example_world\<lparr>StderrPipe_err := Some ''exec: Stderr already set''\<rparr>"

definition abs_failing_world :: world where
  "abs_failing_world = example_world\<lparr>filepath_Abs := Inl ''getwd: no such file or directory''\<rparr>"

definition ok_world :: world where
  "ok_world = example_world\<lparr>populate_Wait_err := None\<rparr>"

section \<open>Properties\<close>

subsection \<open>The regular expressions\<close>

text \<open>A group is never empty and holds no white space.\<close>

lemma match_here_group:
  assumes "match_here re s = Some m" and "group re"
  shows "length m = 2 \<and> m ! 1 \<noteq> [] \<and> (\<forall>c\<in>set (m ! 1). \<not> isSpace c)"
  using assms by (auto simp: match_here_def Let_def split: if_splits dest: set_takeWhileD)

lemma FindStringSubmatch_group:
  assumes "FindStringSubmatch re s = Some m" and "group re"
  shows "length m = 2 \<and> m ! 1 \<noteq> [] \<and> (\<forall>c\<in>set (m ! 1). \<not> isSpace c)"
  using assms
proof (induction s)
  case Nil
  then show ?case using match_here_group [of re "[]" m] by simp
next
  case (Cons c cs)
  show ?case
  proof (cases "match_here re (c # cs)")
    case None
    with Cons show ?thesis by simp
  next
    case (Some m')
    with Cons.prems have "m' = m" by simp
    with Some Cons.prems(2) show ?thesis using match_here_group [of re "c # cs" m] by simp
  qed
qed

text \<open>A pattern without a group matches exactly the texts that contain its literal.\<close>

lemma match_here_plain: "\<not> group re \<Longrightarrow> (match_here re s \<noteq> None) = prefix (literal re) s"
  by (simp add: match_here_def)

lemma FindStringSubmatch_plain:
  "\<not> group re \<Longrightarrow> (FindStringSubmatch re s \<noteq> None) = sublist (literal re) s"
proof (induction s)
  case Nil
  then show ?case using match_here_plain [of re "[]"] by simp
next
  case (Cons c cs)
  then show ?case
    using match_here_plain [of re "c # cs"]
    by (auto simp: sublist_Cons_right split: option.splits)
qed

lemma ready_iff: "(FindStringSubmatch readyRE text \<noteq> None) = sublist ''GET /_ah/warmup'' text"
  using FindStringSubmatch_plain [of readyRE "text"] by (simp add: readyRE_def)

lemmas re_defs = hostRE_def adminURLRE_def readyRE_def match_here_def isSpace_def Let_def

lemma host_line_matches:
  "FindStringSubmatch readyRE host_line = None"
  "FindStringSubmatch hostRE host_line = Some [host_line, ''http://localhost:8080'']"
  "FindStringSubmatch adminURLRE host_line = None"
  by (simp_all add: host_line_def re_defs)

lemma https_line_matches:
  "FindStringSubmatch readyRE https_line = None"
  "FindStringSubmatch hostRE https_line = Some [https_line, ''https://localhost:8080'']"
  "FindStringSubmatch adminURLRE https_line = None"
  by (simp_all add: https_line_def re_defs)

lemma admin_line_matches:
  "FindStringSubmatch readyRE admin_line = None"
  "FindStringSubmatch hostRE admin_line = None"
  "FindStringSubmatch adminURLRE admin_line = Some [admin_line, ''http://localhost:9999'']"
  by (simp_all add: admin_line_def re_defs)

lemma ready_line_matches:
  "sublist ''GET /_ah/warmup'' ready_line"
  by (simp add: ready_line_def sublist_code)

lemma both_line_matches:
  "sublist ''GET /_ah/warmup'' both_line"
  "FindStringSubmatch hostRE both_line = Some [host_line, ''http://localhost:8080'']"
  by (simp_all add: both_line_def host_line_def sublist_code re_defs)

lemma short_lines_match_nothing:
  "FindStringSubmatch readyRE ''admin server at: http://localhost:9999'' = None"
  "FindStringSubmatch hostRE ''admin server at: http://localhost:9999'' = None"
  "FindStringSubmatch adminURLRE ''admin server at: http://localhost:9999'' = None"
  "FindStringSubmatch readyRE ''module running at: http://localhost:8080'' = None"
  "FindStringSubmatch hostRE ''module running at: http://localhost:8080'' = None"
  "FindStringSubmatch adminURLRE ''module running at: http://localhost:8080'' = None"
  "FindStringSubmatch readyRE ''GET /_ah/warmup'' = Some [''GET /_ah/warmup'']"
  by (simp_all add: re_defs)

subsection \<open>The loop body\<close>

lemma capture_host_cases:
  "capture_host L i text = (i1, r) \<Longrightarrow>
     (FindStringSubmatch hostRE text = None \<and> i1 = i \<and> r = None)
   \<or> (\<exists>m e. FindStringSubmatch hostRE text = Some m \<and> url_Parse L (m ! 1) = Inl e \<and> i1 = i
          \<and> r = Some (parse_failure L (m ! 1) e))
   \<or> (\<exists>m u. FindStringSubmatch hostRE text = Some m \<and> url_Parse L (m ! 1) = Inr u
          \<and> i1 = i\<lparr>baseURL := Some u\<rparr> \<and> r = None)"
  by (auto simp: capture_host_def split: option.splits sum.splits)

lemma capture_admin_baseURL: "baseURL (fst (capture_admin L i text)) = baseURL i"
  by (simp add: capture_admin_def split: option.splits sum.splits)

lemma capture_host_err:
  "(snd (capture_host L i line) = None) = capture_parses L hostRE line"
  by (simp add: capture_host_def capture_parses_def split: option.splits sum.splits)

lemma capture_admin_err:
  "(snd (capture_admin L i line) = None) = capture_parses L adminURLRE line"
  by (simp add: capture_admin_def capture_parses_def split: option.splits sum.splits)

lemma capture_host_line:
  "url_Parse L ''http://localhost:8080'' = Inr ub \<Longrightarrow>
   capture_host L i host_line = (i\<lparr>baseURL := Some ub\<rparr>, None)"
  "capture_admin L i host_line = (i, None)"
  by (simp_all add: capture_host_def capture_admin_def host_line_matches)

lemma capture_admin_line:
  "capture_host L i admin_line = (i, None)"
  "url_Parse L ''http://localhost:9999'' = Inr ua \<Longrightarrow>
   capture_admin L i admin_line = (i\<lparr>adminURL := Some ua\<rparr>, None)"
  by (simp_all add: capture_host_def capture_admin_def admin_line_matches)

subsection \<open>The scan\<close>

lemma scan_ready_head:
  "FindStringSubmatch readyRE text \<noteq> None \<Longrightarrow> scan_stderr L i ((text, e) # post) final = (i, e)"
  by simp

lemma scan_stderr_append_ready:
  assumes "FindStringSubmatch readyRE text \<noteq> None"
  shows "scan_stderr L i (pre @ (text, e) # post) final = scan_stderr L i (pre @ [(text, e)]) final'"
  using assms
proof (induction pre arbitrary: i)
  case Nil
  then show ?case by simp
next
  case (Cons t pre)
  obtain l s where t: "t = (l, s)" by (cases t)
  show ?case using Cons by (simp add: t split: prod.splits option.splits)
qed

lemma scan_stderr_fst_ready:
  assumes "FindStringSubmatch readyRE text \<noteq> None"
  shows "fst (scan_stderr L i (pre @ (text, e) # post) final) = fst (scan_stderr L i pre final')"
  using assms
proof (induction pre arbitrary: i)
  case Nil
  then show ?case by simp
next
  case (Cons t pre)
  obtain l s where t: "t = (l, s)" by (cases t)
  show ?case using Cons by (simp add: t split: prod.splits option.splits)
qed

lemma scan_stderr_fst_final:
  "fst (scan_stderr L i toks final) = fst (scan_stderr L i toks final')"
proof (induction toks arbitrary: i)
  case Nil
  then show ?case by simp
next
  case (Cons t toks)
  obtain l s where t: "t = (l, s)" by (cases t)
  show ?case using Cons by (simp add: t split: prod.splits option.splits)
qed

lemma scan_stderr_take_ready:
  assumes "FindStringSubmatch readyRE line \<noteq> None"
  shows "fst (scan_stderr L i (take n (pre @ (line, e) # post)) final)
       = fst (scan_stderr L i (take n (pre @ (line, e) # post')) final')"
proof (cases "n \<le> length pre")
  case True
  then show ?thesis using scan_stderr_fst_final [of L i "take n pre" final final'] by simp
next
  case False
  then obtain k where n: "n = length pre + Suc k" by (metis add_Suc_right less_imp_add_positive not_le_imp_less gr0_implies_Suc)
  show ?thesis
    using scan_stderr_fst_ready [OF assms, of L i pre e "take k post" final final']
          scan_stderr_fst_ready [OF assms, of L i pre e "take k post'" final' final']
    by (simp add: n)
qed

text \<open>
  Where the primary URL of the instance comes from: it is the one the scan started with,
  or the parsed group of a line that stands before every ready line.
\<close>

lemma scan_stderr_baseURL:
  assumes "scan_stderr L i toks final = (i', r)"
  shows "baseURL i' = baseURL i \<or>
         (\<exists>pre line e post m u.
             toks = pre @ (line, e) # post
           \<and> (\<forall>t\<in>set pre. FindStringSubmatch readyRE (fst t) = None)
           \<and> FindStringSubmatch readyRE line = None
           \<and> FindStringSubmatch hostRE line = Some m
           \<and> url_Parse L (m ! 1) = Inr u
           \<and> baseURL i' = Some u)"
  using assms
proof (induction toks arbitrary: i)
  case Nil
  then show ?case by simp
next
  case (Cons t toks)
  obtain l s where t: "t = (l, s)" by (cases t)
  show ?case
  proof (cases "FindStringSubmatch readyRE l \<noteq> None")
    case True
    with Cons.prems t show ?thesis by simp
  next
    case notready: False
    obtain i1 r1 where h: "capture_host L i l = (i1, r1)" by (cases "capture_host L i l")
    obtain i2 r2 where a: "capture_admin L i1 l = (i2, r2)" by (cases "capture_admin L i1 l")
    have b2: "baseURL i2 = baseURL i1" using capture_admin_baseURL [of L i1 l] a by simp
    let ?here = "\<exists>m u. FindStringSubmatch hostRE l = Some m \<and> url_Parse L (m ! 1) = Inr u
                   \<and> baseURL i1 = Some u"
    have b1: "baseURL i1 = baseURL i \<or> ?here"
      using capture_host_cases [OF h] by auto
    show ?thesis
    proof (cases "r1 = None \<and> r2 = None")
      case False
      then have "baseURL i' = baseURL i1"
        using Cons.prems t notready h a b2 by (auto split: option.splits)
      with b1 show ?thesis
      proof (elim disjE)
        assume "baseURL i' = baseURL i1" "?here"
        then obtain m u where "FindStringSubmatch hostRE l = Some m" "url_Parse L (m ! 1) = Inr u"
          "baseURL i' = Some u" by auto
        with notready t have "t # toks = [] @ (l, s) # toks \<and> (\<forall>t\<in>set []. FindStringSubmatch readyRE (fst t) = None)
           \<and> FindStringSubmatch readyRE l = None \<and> FindStringSubmatch hostRE l = Some m
           \<and> url_Parse L (m ! 1) = Inr u \<and> baseURL i' = Some u" by simp
        then show ?thesis by blast
      qed simp
    next
      case True
      then have rec: "scan_stderr L i2 toks final = (i', r)"
        using Cons.prems t notready h a by simp
      from Cons.IH [OF rec] show ?thesis
      proof (elim disjE exE conjE)
        assume e: "baseURL i' = baseURL i2"
        from b1 show ?thesis
        proof (elim disjE)
          assume "baseURL i1 = baseURL i" with e b2 show ?thesis by simp
        next
          assume "?here"
          then obtain m u where "FindStringSubmatch hostRE l = Some m" "url_Parse L (m ! 1) = Inr u"
            "baseURL i1 = Some u" by auto
          with notready t e b2 have "t # toks = [] @ (l, s) # toks \<and> (\<forall>t\<in>set []. FindStringSubmatch readyRE (fst t) = None)
           \<and> FindStringSubmatch readyRE l = None \<and> FindStringSubmatch hostRE l = Some m
           \<and> url_Parse L (m ! 1) = Inr u \<and> baseURL i' = Some u" by simp
          then show ?thesis by blast
        qed
      next
        fix pre line e post m u
        assume "toks = pre @ (line, e) # post"
          "\<forall>t\<in>set pre. FindStringSubmatch readyRE (fst t) = None"
          "FindStringSubmatch readyRE line = None"
          "FindStringSubmatch hostRE line = Some m"
          "url_Parse L (m ! 1) = Inr u"
          "baseURL i' = Some u"
        with notready t have "t # toks = (t # pre) @ (line, e) # post
           \<and> (\<forall>t\<in>set (t # pre). FindStringSubmatch readyRE (fst t) = None)
           \<and> FindStringSubmatch readyRE line = None \<and> FindStringSubmatch hostRE line = Some m
           \<and> url_Parse L (m ! 1) = Inr u \<and> baseURL i' = Some u" by simp
        then show ?thesis by blast
      qed
    qed
  qed
qed

text \<open>On a stream without a ready line every token is read.\<close>

lemma scan_stderr_no_ready:
  assumes "\<forall>t\<in>set toks. FindStringSubmatch readyRE (fst t) = None"
      and "scan_stderr L i toks final = (i', None)"
  shows "(baseURL i' \<noteq> None) =
         (baseURL i \<noteq> None \<or> (\<exists>t\<in>set toks. FindStringSubmatch hostRE (fst t) \<noteq> None))"
  using assms
proof (induction toks arbitrary: i)
  case Nil
  then show ?case by simp
next
  case (Cons t toks)
  obtain l s where t: "t = (l, s)" by (cases t)
  have notready: "FindStringSubmatch readyRE l = None" using Cons.prems(1) t by simp
  obtain i1 r1 where h: "capture_host L i l = (i1, r1)" by (cases "capture_host L i l")
  obtain i2 r2 where a: "capture_admin L i1 l = (i2, r2)" by (cases "capture_admin L i1 l")
  have b2: "baseURL i2 = baseURL i1" using capture_admin_baseURL [of L i1 l] a by simp
  have r1: "r1 = None" and r2: "r2 = None"
    using Cons.prems(2) t notready h a by (auto split: option.splits)
  have rec: "scan_stderr L i2 toks final = (i', None)"
    using Cons.prems(2) t notready h a r1 r2 by simp
  have b1: "(baseURL i1 \<noteq> None) = (baseURL i \<noteq> None \<or> FindStringSubmatch hostRE l \<noteq> None)"
    using capture_host_cases [OF h] r1 by auto
  have "(baseURL i' \<noteq> None) =
        (baseURL i2 \<noteq> None \<or> (\<exists>t\<in>set toks. FindStringSubmatch hostRE (fst t) \<noteq> None))"
    using Cons.IH [OF _ rec] Cons.prems(1) by simp
  with b1 b2 t show ?case by auto
qed

lemma scan_stderr_no_ready_err:
  assumes "\<forall>t\<in>set toks. FindStringSubmatch readyRE (fst t) = None"
  shows "(snd (scan_stderr L i toks final) = None) =
         (final = None \<and> (\<forall>t\<in>set toks. capture_parses L hostRE (fst t)
                                       \<and> capture_parses L adminURLRE (fst t)))"
  using assms
proof (induction toks arbitrary: i)
  case Nil
  then show ?case by simp
next
  case (Cons t toks)
  obtain l s where t: "t = (l, s)" by (cases t)
  have notready: "FindStringSubmatch readyRE l = None" using Cons.prems(1) t by simp
  obtain i1 r1 where h: "capture_host L i l = (i1, r1)" by (cases "capture_host L i l")
  obtain i2 r2 where a: "capture_admin L i1 l = (i2, r2)" by (cases "capture_admin L i1 l")
  have r1: "(r1 = None) = capture_parses L hostRE l" using capture_host_err [of L i l] h by simp
  have r2: "(r2 = None) = capture_parses L adminURLRE l" using capture_admin_err [of L i1 l] a by simp
  have ih: "(snd (scan_stderr L i2 toks final) = None) =
         (final = None \<and> (\<forall>t\<in>set toks. capture_parses L hostRE (fst t)
                                       \<and> capture_parses L adminURLRE (fst t)))"
    using Cons.IH [of i2] Cons.prems by simp
  show ?case
  proof (cases "r1 = None \<and> r2 = None")
    case True
    then have "scan_stderr L i (t # toks) final = scan_stderr L i2 toks final"
      using t notready h a by simp
    with ih True r1 r2 t show ?thesis by simp
  next
    case False
    then have "snd (scan_stderr L i (t # toks) final) \<noteq> None"
      using t notready h a by (auto split: option.splits)
    with False r1 r2 t show ?thesis by auto
  qed
qed

subsection \<open>Concrete runs\<close>

lemma fmt_8080: "fmt_d (sint (8080 :: 64 word)) = ''8080''"
  by (simp add: fmt_d_def fmt_nat.simps digit_def)

lemma newDevAppServer_example:
  "newDevAppServer 8080 9090 (Inr ''/wpt.fyi/webapp'') None = Return (Some example_instance, None)"
  by (simp add: newDevAppServer_def example_instance_def fmt_d_def fmt_nat.simps digit_def Second_def)

lemma example_parse:
  "url_Parse example_lib ''http://localhost:9999'' = Inr ''http://localhost:9999''"
  "url_Parse example_lib ''http://localhost:8080'' = Inr ''http://localhost:8080''"
  by (simp_all add: example_lib_def)

lemma example_parse_https:
  "url_Parse example_lib ''https://localhost:8080'' = Inr ''https://localhost:8080''"
  by (simp add: example_lib_def)

lemma example_base: "baseURL example_instance = None"
  by (simp add: example_instance_def)

lemma example_run:
  "AwaitReady example_lib example_instance None (clean [admin_line, host_line, ready_line]) None Errc
     = (example_ready, None, [cmd_Start, time_After 90000000000])"
proof -
  have r: "FindStringSubmatch readyRE ready_line \<noteq> None" using ready_line_matches ready_iff by blast
  have "scan_stderr example_lib (example_instance\<lparr>process := True\<rparr>)
          (clean [admin_line, host_line, ready_line]) None = (example_ready, None)"
    using r by (simp add: clean_def admin_line_matches(1) host_line_matches(1)
        capture_admin_line(1) capture_admin_line(2) [OF example_parse(1)]
        capture_host_line(1) [OF example_parse(2)] capture_host_line(2)
        example_ready_def example_instance_def)
  then show ?thesis by (simp add: AwaitReady_def Let_def example_ready_def example_instance_def)
qed

lemma only_host_run:
  "AwaitReady example_lib example_instance None (clean [host_line]) None Errc
     = (example_instance\<lparr>process := True, baseURL := Some ''http://localhost:8080''\<rparr>, None,
        [cmd_Start, time_After 90000000000])"
  by (simp add: AwaitReady_def Let_def clean_def host_line_matches(1)
        capture_host_line(1) [OF example_parse(2)] capture_host_line(2) example_instance_def)

lemma only_admin_run:
  "AwaitReady example_lib example_instance None (clean [admin_line]) None Errc
     = (example_instance\<lparr>process := True, adminURL := Some ''http://localhost:9999''\<rparr>,
        Some ''unable to find webserver URL'', [cmd_Start, time_After 90000000000])"
  by (simp add: AwaitReady_def Let_def clean_def admin_line_matches(1)
        capture_admin_line(1) capture_admin_line(2) [OF example_parse(1)] example_instance_def)

lemma no_ready_in_admin_line: "\<forall>t\<in>set (clean [admin_line]). \<not> sublist ''GET /_ah/warmup'' (fst t)"
  using admin_line_matches(1) ready_iff [of admin_line] by (simp add: clean_def)

lemma example_world_fields:
  "pickUnusedPort1 example_world = 8080"
  "pickUnusedPort2 example_world = 9090"
  "filepath_Abs example_world = Inr ''/wpt.fyi/webapp''"
  "StderrPipe_err example_world = None"
  "Start_err example_world = None"
  "stderr_tokens example_world = clean [admin_line, host_line, ready_line]"
  "stderr_final example_world = None"
  "startup_select example_world = Errc"
  "populate_Start_err example_world = None"
  "populate_Wait_err example_world = Some ''exit status 1''"
  by (simp_all add: example_world_def)

lemma example_seeding:
  "addStaticData example_ready None (Some ''exit status 1'')
     = (Some ''exit status 1'',
        [populate_Start [''go'', ''run'', ''../util/populate_dev_data.go'',
                         ''--local_host=localhost:8080'',
                         ''--local_remote_api_host=localhost:9090'',
                         ''--remote_runs=false'', ''--static_runs=true''],
         populate_Wait])"
  by (simp add: addStaticData_def example_ready_def example_instance_def fmt_d_def fmt_nat.simps
        digit_def)

subsection \<open>What the check after the scan decides\<close>

text \<open>
  After the scan \<open>AwaitReady\<close> looks at the primary URL and at nothing else. When it returns
  no error on an instance that had no primary URL, the child was started, the scan finished
  before the timer fired, and the primary URL is the parsed, non-empty group of a line that
  stands before every ready line.
\<close>

lemma AwaitReady_nil_needs_primary:
  assumes "AwaitReady L i start_err toks final sel = (i', None, acts)"
      and "baseURL i = None"
  shows "start_err = None \<and> sel = Errc \<and>
         (\<exists>pre line e post m u.
             toks = pre @ (line, e) # post
           \<and> (\<forall>t\<in>set pre. FindStringSubmatch readyRE (fst t) = None)
           \<and> FindStringSubmatch readyRE line = None
           \<and> FindStringSubmatch hostRE line = Some m
           \<and> m ! 1 \<noteq> []
           \<and> url_Parse L (m ! 1) = Inr u
           \<and> baseURL i' = Some u)"
proof -
  have s: "start_err = None" using assms(1) by (cases start_err) (simp_all add: AwaitReady_def)
  have c: "sel = Errc" using assms(1) s by (cases sel) (simp_all add: AwaitReady_def Let_def)
  obtain i1 r where sc: "scan_stderr L (i\<lparr>process := True\<rparr>) toks final = (i1, r)"
    by (cases "scan_stderr L (i\<lparr>process := True\<rparr>) toks final")
  have "r = None \<and> i1 = i' \<and> baseURL i1 \<noteq> None"
    using assms(1) s c sc by (auto simp: AwaitReady_def Let_def split: option.splits if_splits)
  then have sc': "scan_stderr L (i\<lparr>process := True\<rparr>) toks final = (i', None)" and b: "baseURL i' \<noteq> None"
    using sc by auto
  from scan_stderr_baseURL [OF sc'] b assms(2)
  obtain pre line e post m u where w: "toks = pre @ (line, e) # post"
      "\<forall>t\<in>set pre. FindStringSubmatch readyRE (fst t) = None"
      "FindStringSubmatch readyRE line = None"
      "FindStringSubmatch hostRE line = Some m"
      "url_Parse L (m ! 1) = Inr u"
      "baseURL i' = Some u" by auto
  have "m ! 1 \<noteq> []" using FindStringSubmatch_group [OF w(4)] by (simp add: hostRE_def)
  with w s c show ?thesis by blast
qed

lemma AwaitReady_nil_baseURL:
  assumes "AwaitReady L i start_err toks final sel = (i', None, acts)"
  shows "baseURL i' \<noteq> None"
proof -
  have s: "start_err = None" using assms by (cases start_err) (simp_all add: AwaitReady_def)
  have c: "sel = Errc" using assms s by (cases sel) (simp_all add: AwaitReady_def Let_def)
  show ?thesis
    using assms s c by (auto simp: AwaitReady_def Let_def split: prod.splits option.splits if_splits)
qed

text \<open>
  On a stream without a ready line, closed before the timer fires, the same check makes the
  result depend on the primary line alone.
\<close>

lemma AwaitReady_closed_before_ready:
  assumes "\<forall>t\<in>set toks. \<not> sublist ''GET /_ah/warmup'' (fst t)"
      and "baseURL i = None"
      and "AwaitReady L i None toks final Errc = (i', r, acts)"
  shows "((r = None) =
           (final = None
            \<and> (\<forall>t\<in>set toks. capture_parses L hostRE (fst t) \<and> capture_parses L adminURLRE (fst t))
            \<and> (\<exists>t\<in>set toks. FindStringSubmatch hostRE (fst t) \<noteq> None)))
       \<and> (r = None \<or> r = Some ''unable to find webserver URL''
            \<or> (\<exists>e. r = Some (''error reading web_server.sh process stderr: '' @ e)))"
proof -
  have nr: "\<forall>t\<in>set toks. FindStringSubmatch readyRE (fst t) = None"
    using assms(1) ready_iff by blast
  obtain i1 r1 where sc: "scan_stderr L (i\<lparr>process := True\<rparr>) toks final = (i1, r1)"
    by (cases "scan_stderr L (i\<lparr>process := True\<rparr>) toks final")
  have e: "(r1 = None) = (final = None \<and> (\<forall>t\<in>set toks. capture_parses L hostRE (fst t)
                                       \<and> capture_parses L adminURLRE (fst t)))"
    using scan_stderr_no_ready_err [OF nr, of L "i\<lparr>process := True\<rparr>" final] sc by simp
  have shape: "r = None \<or> r = Some ''unable to find webserver URL''
            \<or> (\<exists>e. r = Some (''error reading web_server.sh process stderr: '' @ e))"
    using assms(3) sc by (auto simp: AwaitReady_def Let_def split: option.splits if_splits)
  show ?thesis
  proof (cases r1)
    case (Some x)
    then have "r \<noteq> None" using assms(3) sc by (auto simp: AwaitReady_def Let_def)
    with Some e shape show ?thesis by auto
  next
    case None
    then have b: "(baseURL i1 \<noteq> None) = (\<exists>t\<in>set toks. FindStringSubmatch hostRE (fst t) \<noteq> None)"
      using scan_stderr_no_ready [OF nr, of L "i\<lparr>process := True\<rparr>" final i1] sc assms(2) by simp
    have "(r = None) = (baseURL i1 \<noteq> None)"
      using assms(3) sc None by (auto simp: AwaitReady_def Let_def split: if_splits)
    with b e None shape show ?thesis by auto
  qed
qed

lemma https_run:
  "AwaitReady example_lib example_instance None (clean [admin_line, https_line, ready_line]) None Errc
     = (example_ready\<lparr>baseURL := Some ''https://localhost:8080''\<rparr>, None,
        [cmd_Start, time_After 90000000000])"
proof -
  have r: "FindStringSubmatch readyRE ready_line \<noteq> None" using ready_line_matches ready_iff by blast
  have h: "capture_host example_lib i https_line = (i\<lparr>baseURL := Some ''https://localhost:8080''\<rparr>, None)"
    for i :: "string devAppServerInstance"
    by (simp add: capture_host_def https_line_matches example_parse_https)
  have a: "capture_admin example_lib i https_line = (i, None)" for i :: "string devAppServerInstance"
    by (simp add: capture_admin_def https_line_matches)
  have "scan_stderr example_lib (example_instance\<lparr>process := True\<rparr>)
          (clean [admin_line, https_line, ready_line]) None
          = (example_ready\<lparr>baseURL := Some ''https://localhost:8080''\<rparr>, None)"
    using r by (simp add: clean_def admin_line_matches(1) https_line_matches(1) h a
        capture_admin_line(1) capture_admin_line(2) [OF example_parse(1)]
        example_ready_def example_instance_def)
  then show ?thesis by (simp add: AwaitReady_def Let_def example_ready_def example_instance_def)
qed

lemma NewWebserver_discovered:
  fixes L :: "'u stdlib"
  assumes "NewWebserver L False rh w = (Return (Dev (Some i), None), acts)"
  shows "baseURL i \<noteq> None"
proof -
  let ?n = "newDevAppServer (pickUnusedPort1 w) (pickUnusedPort2 w) (filepath_Abs w)
              (StderrPipe_err w) :: ('u devAppServerInstance option \<times> error option) result"
  show ?thesis
  proof (cases ?n)
    case (Panic m)
    with assms show ?thesis by (simp add: NewWebserver_def)
  next
    case (Return p)
    obtain a e where p: "p = (a, e)" by (cases p)
    show ?thesis
    proof (cases e)
      case (Some x)
      with assms Return p show ?thesis by (cases a) (simp_all add: NewWebserver_def)
    next
      case None
      show ?thesis
      proof (cases a)
        case None
        with assms Return p \<open>e = None\<close> show ?thesis by (simp add: NewWebserver_def)
      next
        case (Some app)
        obtain app1 r acts1 where ar: "AwaitReady L app (Start_err w) (stderr_tokens w)
            (stderr_final w) (startup_select w) = (app1, r, acts1)"
          by (cases "AwaitReady L app (Start_err w) (stderr_tokens w) (stderr_final w)
                (startup_select w)")
        obtain r2 acts2 where sd: "addStaticData app1 (populate_Start_err w) (populate_Wait_err w)
            = (r2, acts2)"
          by (cases "addStaticData app1 (populate_Start_err w) (populate_Wait_err w)")
        have "r = None \<and> app1 = i"
          using assms Return p \<open>e = None\<close> Some ar sd
          by (cases r; cases r2) (simp_all add: NewWebserver_def)
        with ar show ?thesis using AwaitReady_nil_baseURL [of L app _ _ _ _ i acts1] by simp
      qed
    qed
  qed
qed

lemma NewWebserver_after_build:
  assumes "newDevAppServer (pickUnusedPort1 w) (pickUnusedPort2 w) (filepath_Abs w)
             (StderrPipe_err w) = Return (Some app, None)"
      and "AwaitReady L app (Start_err w) (stderr_tokens w) (stderr_final w) (startup_select w)
             = (app1, r, acts)"
      and "addStaticData app1 (populate_Start_err w) (populate_Wait_err w) = (r2, acts2)"
  shows "NewWebserver L False rh w
           = (case r of
                Some e \<Rightarrow> (Panic e, acts)
              | None \<Rightarrow> (case r2 of
                           Some e \<Rightarrow> (Panic e, acts @ acts2)
                         | None \<Rightarrow> (Return (Dev (Some app1), None), acts @ acts2)))"
  using assms by (simp add: NewWebserver_def split: option.splits)

lemma NewWebserver_returned_error: "NewWebserver L False rh w' = (Return (a', Some e'), x')
            \<longrightarrow> (\<exists>d. filepath_Abs w' = Inr d) \<and> StderrPipe_err w' = Some e'
                \<and> a' = Dev None \<and> x' = []"
proof (cases "filepath_Abs w'")
  case (Inl e)
  then show ?thesis by (simp add: NewWebserver_def newDevAppServer_def)
next
  case (Inr d)
  show ?thesis
  proof (cases "StderrPipe_err w'")
    case (Some e)
    with Inr show ?thesis by (auto simp: NewWebserver_def newDevAppServer_def)
  next
    case None
    let ?app = "\<lparr>cmd = [''dev_appserver.py'',
                                     ''--port='' @ fmt_d (sint (pickUnusedPort1 w')),
                                     ''--api_port='' @ fmt_d (sint (pickUnusedPort2 w')),
                                     ''--admin_port='' @ fmt_d 0,
                                     ''--automatic_restart=false'',
                                     ''--support_datastore_emulator=false'',
                                     ''--skip_sdk_update_check=true'',
                                     ''--clear_datastore=true'',
                                     ''--datastore_consistency_policy=consistent'',
                                     ''--clear_search_indexes=true'',
                                     ''-A=wptdashboard'',
                                     d],
                             process = False,
                             startupTimeout = 90 * Second,
                             host = ''localhost'',
                             port = pickUnusedPort1 w',
                             apiPort = pickUnusedPort2 w',
                             baseURL = None,
                             adminURL = None\<rparr>"
    have n: "newDevAppServer (pickUnusedPort1 w') (pickUnusedPort2 w') (filepath_Abs w')
             (StderrPipe_err w') = Return (Some ?app, None)"
      using Inr None by (simp add: newDevAppServer_def)
    obtain app1 r acts where ar: "AwaitReady L ?app (Start_err w') (stderr_tokens w')
        (stderr_final w') (startup_select w') = (app1, r, acts)"
      by (cases "AwaitReady L ?app (Start_err w') (stderr_tokens w')
        (stderr_final w') (startup_select w')")
    obtain r2 acts2 where sd: "addStaticData app1 (populate_Start_err w') (populate_Wait_err w')
        = (r2, acts2)"
      by (cases "addStaticData app1 (populate_Start_err w') (populate_Wait_err w')")
    have "NewWebserver L False rh w' \<noteq> (Return (a', Some e'), x')"
      using NewWebserver_after_build [OF n ar sd, of rh] by (simp split: option.splits)
    then show ?thesis by simp
  qed
qed

lemma ok_world_run:
  "NewWebserver example_lib False ''staging.wpt.fyi'' ok_world
     = (Return (Dev (Some example_ready), None),
        [cmd_Start, time_After 90000000000,
         populate_Start [''go'', ''run'', ''../util/populate_dev_data.go'',
                         ''--local_host=localhost:8080'',
                         ''--local_remote_api_host=localhost:9090'',
                         ''--remote_runs=false'', ''--static_runs=true''],
         populate_Wait])"
proof -
  have "addStaticData example_ready None None
     = (None,
        [populate_Start [''go'', ''run'', ''../util/populate_dev_data.go'',
                         ''--local_host=localhost:8080'',
                         ''--local_remote_api_host=localhost:9090'',
                         ''--remote_runs=false'', ''--static_runs=true''],
         populate_Wait])"
    by (simp add: addStaticData_def example_ready_def example_instance_def fmt_d_def fmt_nat.simps
        digit_def)
  then show ?thesis
    using newDevAppServer_example example_run
    by (simp add: NewWebserver_def ok_world_def example_world_def)
qed

section \<open>The claims\<close>

text \<open>
  C1. \<open>AwaitReady\<close> is to return no error only when both URLs have been read and parsed
  and the ready line has been seen. The code breaks this: on the stream that holds the
  primary line alone and is then closed it returns no error, though no admin URL was read
  and no ready line was seen, and \<open>Close\<close> on the instance it leaves panics on the missing
  admin URL.
\<close>

theorem AwaitReady_nil_without_admin:
  "fst (snd (AwaitReady example_lib example_instance None (clean [host_line]) None Errc)) = None
   \<and> adminURL (fst (AwaitReady example_lib example_instance None (clean [host_line]) None Errc)) = None
   \<and> \<not> sublist ''GET /_ah/warmup'' host_line
   \<and> Close example_lib
         (fst (AwaitReady example_lib example_instance None (clean [host_line]) None Errc))
         None (Exited None)
       = (Panic nil_dereference, [cmd_Wait])"
  using host_line_matches(1) ready_iff [of host_line]
  unfolding only_host_run by (simp add: example_instance_def Close_def)

text \<open>
  C2. On a stream that is closed before the timer fires and holds no ready line,
  \<open>AwaitReady\<close> is to return an error. The code breaks this: on the stream that holds the
  admin line and the primary line and is then closed it returns no error.
\<close>

theorem AwaitReady_nil_without_ready:
  "fst (snd (AwaitReady example_lib example_instance None (clean [admin_line, host_line]) None Errc)) = None
   \<and> \<not> sublist ''GET /_ah/warmup'' admin_line
   \<and> \<not> sublist ''GET /_ah/warmup'' host_line"
  using host_line_matches(1) ready_iff [of host_line] admin_line_matches(1) ready_iff [of admin_line]
  by (simp add: AwaitReady_def Let_def clean_def
        capture_admin_line(1) capture_admin_line(2) [OF example_parse(1)]
        capture_host_line(1) [OF example_parse(2)] capture_host_line(2) example_instance_def)

text \<open>
  C3, in the form the code satisfies. The stream that holds the line
  \<^verbatim>\<open>Starting admin server at: http://localhost:9999\<close>, then the line
  \<^verbatim>\<open>Starting module "default" running at: http://localhost:8080\<close>, then a line that contains
  \<^verbatim>\<open>GET /_ah/warmup\<close>, whatever follows it: \<open>AwaitReady\<close> returns no error, the primary URL
  is the parsed \<^verbatim>\<open>http://localhost:8080\<close> and the admin URL the parsed
  \<^verbatim>\<open>http://localhost:9999\<close>.
\<close>

theorem AwaitReady_scenario:
  assumes "url_Parse L ''http://localhost:9999'' = Inr ua"
      and "url_Parse L ''http://localhost:8080'' = Inr ub"
      and "sublist ''GET /_ah/warmup'' ready"
  shows "AwaitReady L i None (clean [admin_line, host_line, ready] @ rest) final Errc
       = (i\<lparr>process := True, baseURL := Some ub, adminURL := Some ua\<rparr>, None,
          [cmd_Start, time_After (startupTimeout i)])"
proof -
  have r: "FindStringSubmatch readyRE ready \<noteq> None" using assms(3) ready_iff by blast
  have "scan_stderr L (i\<lparr>process := True\<rparr>) (clean [admin_line, host_line, ready] @ rest) final
      = (i\<lparr>process := True, adminURL := Some ua, baseURL := Some ub\<rparr>, None)"
    using r by (simp add: clean_def admin_line_matches(1) host_line_matches(1)
        capture_admin_line(1) capture_admin_line(2) [OF assms(1)]
        capture_host_line(1) [OF assms(2)] capture_host_line(2))
  then show ?thesis by (simp add: AwaitReady_def Let_def)
qed

theorem AwaitReady_scenario_witness:
  "AwaitReady example_lib example_instance None (clean [admin_line, host_line, ready_line] @ []) None Errc
       = (example_ready, None, [cmd_Start, time_After 90000000000])"
  using AwaitReady_scenario [OF example_parse ready_line_matches, of example_instance "[]" None]
  by (simp add: example_ready_def example_instance_def)

text \<open>
  C3 as it is stated fails: the lines \<^verbatim>\<open>admin server at: http://localhost:9999\<close> and
  \<^verbatim>\<open>module running at: http://localhost:8080\<close> lack the beginning of the two markers, no
  pattern matches them, and \<open>AwaitReady\<close> returns \<^verbatim>\<open>unable to find webserver URL\<close>.
\<close>

theorem AwaitReady_scenario_counterexample:
  "fst (snd (AwaitReady example_lib example_instance None
         (clean [''admin server at: http://localhost:9999'',
                 ''module running at: http://localhost:8080'',
                 ''GET /_ah/warmup'']) None Errc))
     = Some ''unable to find webserver URL''"
  by (simp add: AwaitReady_def Let_def clean_def short_lines_match_nothing capture_host_def
      capture_admin_def example_instance_def del: FindStringSubmatch.simps)

text \<open>
  C4. When the child has been started and the timer case of the \<^verbatim>\<open>select\<close> fires,
  \<open>AwaitReady\<close> kills the child as its last action and returns the error
  \<^verbatim>\<open>timeout starting child process\<close>, which is neither of the errors it returns when the
  scan has finished.
\<close>

theorem AwaitReady_timeout:
  assumes "AwaitReady L i None toks final (Timer n) = (i', r, acts)"
  shows "r = Some ''timeout starting child process''
       \<and> acts = [cmd_Start, time_After (startupTimeout i), Process_Kill]
       \<and> r \<noteq> Some ''unable to find webserver URL''
       \<and> (\<forall>e. r \<noteq> Some (''error reading web_server.sh process stderr: '' @ e))"
  using assms by (auto simp: AwaitReady_def Let_def)

theorem AwaitReady_timeout_witness:
  "AwaitReady example_lib example_instance None (clean [admin_line]) None (Timer 1)
     = (example_instance\<lparr>process := True, adminURL := Some ''http://localhost:9999''\<rparr>,
        Some ''timeout starting child process'',
        [cmd_Start, time_After 90000000000, Process_Kill])"
proof -
  obtain i' r acts where e: "AwaitReady example_lib example_instance None (clean [admin_line]) None (Timer 1) = (i', r, acts)"
    by (cases "AwaitReady example_lib example_instance None (clean [admin_line]) None (Timer 1)")
  have i': "i' = example_instance\<lparr>process := True, adminURL := Some ''http://localhost:9999''\<rparr>"
    using e by (simp add: AwaitReady_def Let_def clean_def admin_line_matches(1)
        capture_admin_line(1) capture_admin_line(2) [OF example_parse(1)] example_instance_def)
  from AwaitReady_timeout [OF e] e i' show ?thesis by (simp add: example_instance_def)
qed

text \<open>
  C5. In \<open>Close\<close>, on an instance with an admin URL and a started child, when
  \<^verbatim>\<open>http.Get\<close> returns an error the child is killed right after the request and the error
  \<^verbatim>\<open>unable to call /quit handler: ...\<close> is returned; no timer is started, and the result
  does not depend on what the child does afterwards.
\<close>

theorem Close_delivery_failure:
  assumes "adminURL i = Some u" and "process i"
  shows "Close L i (Some e) sel
       = (Return (Some (''unable to call /quit handler: '' @ e)),
          [cmd_Wait, http_Get (url_String L u @ ''/quit''), Process_Kill])"
  using assms by (simp add: Close_def)

theorem Close_delivery_failure_witness:
  "Close example_lib example_ready (Some ''connection refused'') GraceExpired
       = (Return (Some ''unable to call /quit handler: connection refused''),
          [cmd_Wait, http_Get ''http://localhost:9999/quit'', Process_Kill])"
  using Close_delivery_failure [of example_ready "''http://localhost:9999''" example_lib
      "''connection refused''" GraceExpired]
  by (simp add: example_ready_def example_lib_def)

text \<open>
  C6. In \<open>Close\<close>, on an instance with an admin URL and a started child, when the request
  was delivered a timer of 15 seconds is started. If it fires, the child is killed and the
  error \<^verbatim>\<open>timeout killing child process\<close> is returned; if the child exits first, what
  \<^verbatim>\<open>cmd.Wait\<close> returned is returned (\<open>None\<close> for a clean exit) and nothing is killed.
\<close>

theorem Close_delivered:
  assumes "adminURL i = Some u" and "process i"
  shows "Close L i None GraceExpired
       = (Return (Some ''timeout killing child process''),
          [cmd_Wait, http_Get (url_String L u @ ''/quit''), Body_Close,
           time_After (15 * Second), Process_Kill])
       \<and> Close L i None (Exited x)
       = (Return x,
          [cmd_Wait, http_Get (url_String L u @ ''/quit''), Body_Close, time_After (15 * Second)])"
  using assms by (simp add: Close_def)

theorem Close_delivered_witness:
  "Close example_lib example_ready None GraceExpired
       = (Return (Some ''timeout killing child process''),
          [cmd_Wait, http_Get ''http://localhost:9999/quit'', Body_Close,
           time_After 15000000000, Process_Kill])
   \<and> Close example_lib example_ready None (Exited None)
       = (Return None,
          [cmd_Wait, http_Get ''http://localhost:9999/quit'', Body_Close, time_After 15000000000])"
  using Close_delivered [of example_ready "''http://localhost:9999''" example_lib None]
  by (simp add: example_ready_def example_lib_def Second_def)

text \<open>
  C7, in the form the code satisfies. \<open>GetWebappURL\<close> concatenates and does nothing else:
  the remote variant returns \<^verbatim>\<open>https://\<close>, the host and the path; the local variant
  returns the string form of the discovered base URL and the path, as it does for every
  instance \<open>NewWebserver\<close> returns, and without a discovered base URL \<^verbatim>\<open>http://\<close>, the host,
  a colon, the port and the path. In every case the result is the result for the empty path
  followed by the path; for a path that starts with a slash this is base/rest.
\<close>

theorem GetWebappURL_concatenates:
  "remote_GetWebappURL r path = ''https://'' @ r_host r @ path
   \<and> remote_GetWebappURL r (CHR ''/'' # rest) = ''https://'' @ r_host r @ ''/'' @ rest
   \<and> (baseURL i = None \<longrightarrow>
        GetWebappURL L i path = ''http://'' @ host i @ '':'' @ fmt_d (sint (port i)) @ path
      \<and> GetWebappURL L i (CHR ''/'' # rest)
          = ''http://'' @ host i @ '':'' @ fmt_d (sint (port i)) @ ''/'' @ rest)
   \<and> (\<forall>u. baseURL i = Some u \<longrightarrow>
        GetWebappURL L i path = url_String L u @ path
      \<and> GetWebappURL L i (CHR ''/'' # rest) = url_String L u @ ''/'' @ rest)
   \<and> GetWebappURL L i path = GetWebappURL L i [] @ path
   \<and> remote_GetWebappURL r path = remote_GetWebappURL r [] @ path
   \<and> (NewWebserver L False rh w = (Return (Dev (Some i'), None), acts) \<longrightarrow>
        (\<exists>u. baseURL i' = Some u \<and> GetWebappURL L i' path = url_String L u @ path))
   \<and> (NewWebserver L True rh w = (Return (Remote r', None), acts) \<longrightarrow>
        remote_GetWebappURL r' path = ''https://'' @ rh @ path)"
proof -
  have a: "NewWebserver L False rh w = (Return (Dev (Some i'), None), acts) \<longrightarrow>
        (\<exists>u. baseURL i' = Some u \<and> GetWebappURL L i' path = url_String L u @ path)"
    using NewWebserver_discovered [of L rh w i' acts] by (auto simp: GetWebappURL_def)
  have b: "NewWebserver L True rh w = (Return (Remote r', None), acts) \<longrightarrow>
        remote_GetWebappURL r' path = ''https://'' @ rh @ path"
    by (auto simp: NewWebserver_def remote_GetWebappURL_def)
  have c: "GetWebappURL L i path = GetWebappURL L i [] @ path"
    by (simp add: GetWebappURL_def split: option.splits)
  from a b c show ?thesis by (simp add: remote_GetWebappURL_def GetWebappURL_def)
qed

theorem GetWebappURL_concatenates_witness:
  "remote_GetWebappURL \<lparr>r_host = ''staging.wpt.fyi''\<rparr> ''/foo'' = ''https://staging.wpt.fyi/foo''
   \<and> GetWebappURL example_lib example_instance ''/foo'' = ''http://localhost:8080/foo''
   \<and> NewWebserver example_lib False ''staging.wpt.fyi'' ok_world
       = (Return (Dev (Some example_ready), None),
          [cmd_Start, time_After 90000000000,
           populate_Start [''go'', ''run'', ''../util/populate_dev_data.go'',
                           ''--local_host=localhost:8080'',
                           ''--local_remote_api_host=localhost:9090'',
                           ''--remote_runs=false'', ''--static_runs=true''],
           populate_Wait])
   \<and> baseURL example_ready = Some ''http://localhost:8080''
   \<and> GetWebappURL example_lib example_ready ''/foo'' = ''http://localhost:8080/foo''"
proof -
  note t = GetWebappURL_concatenates [where r = "\<lparr>r_host = ''staging.wpt.fyi''\<rparr>"
      and path = "''/foo''" and rest = "''foo''" and i = example_instance and L = example_lib
      and rh = "''staging.wpt.fyi''" and w = ok_world and i' = example_ready]
  have a: "remote_GetWebappURL \<lparr>r_host = ''staging.wpt.fyi''\<rparr> ''/foo'' = ''https://staging.wpt.fyi/foo''"
    using t by simp
  have b: "GetWebappURL example_lib example_instance ''/foo'' = ''http://localhost:8080/foo''"
    using t example_base fmt_8080 by (simp add: example_instance_def)
  have u: "baseURL example_ready = Some ''http://localhost:8080''"
    by (simp add: example_ready_def)
  have "\<exists>u. baseURL example_ready = Some u
          \<and> GetWebappURL example_lib example_ready ''/foo'' = url_String example_lib u @ ''/foo''"
    using t ok_world_run by blast
  then have c: "GetWebappURL example_lib example_ready ''/foo'' = ''http://localhost:8080/foo''"
    using u by (simp add: example_lib_def)
  from a b c u ok_world_run show ?thesis by simp
qed

text \<open>
  C7 as it is stated fails: for the path \<^verbatim>\<open>foo\<close> the separator is missing in both
  variants, for the path \<^verbatim>\<open>//foo\<close> the result has a double slash after the host, and a
  local instance that has read a primary line with an \<^verbatim>\<open>https\<close> URL answers with that
  scheme.
\<close>

theorem GetWebappURL_counterexample:
  "remote_GetWebappURL \<lparr>r_host = ''staging.wpt.fyi''\<rparr> ''foo'' = ''https://staging.wpt.fyifoo''
   \<and> GetWebappURL example_lib example_instance ''foo'' = ''http://localhost:8080foo''
   \<and> remote_GetWebappURL \<lparr>r_host = ''staging.wpt.fyi''\<rparr> ''//foo'' = ''https://staging.wpt.fyi//foo''
   \<and> GetWebappURL example_lib example_ready ''foo'' = ''http://localhost:8080foo''
   \<and> GetWebappURL example_lib
         (fst (AwaitReady example_lib example_instance None
                 (clean [admin_line, https_line, ready_line]) None Errc)) ''/foo''
       = ''https://localhost:8080/foo''"
  using fmt_8080 unfolding https_run
  by (simp add: remote_GetWebappURL_def GetWebappURL_def example_instance_def example_ready_def
        example_lib_def)

text \<open>
  C8, in the form the code satisfies. In the local mode of \<open>NewWebserver\<close> the one failure
  returned to the caller as an error value is the failure to create the stderr pipe:
  whenever an error is returned, the pipe failed with it and nothing was started. A failure
  of \<^verbatim>\<open>filepath.Abs\<close>, every error of \<open>AwaitReady\<close> (among them the failure to start the
  child and the startup timeout) and every error of the seeding command make
  \<open>NewWebserver\<close> panic with that error.
\<close>

theorem NewWebserver_failures:
  assumes "newDevAppServer (pickUnusedPort1 w) (pickUnusedPort2 w) (filepath_Abs w)
             (StderrPipe_err w) = Return (Some app, None)"
      and "AwaitReady L app (Start_err w) (stderr_tokens w) (stderr_final w) (startup_select w)
             = (app1, r, acts)"
      and "addStaticData app1 (populate_Start_err w) (populate_Wait_err w) = (r2, acts2)"
  shows "NewWebserver L False rh w
           = (case r of
                Some e \<Rightarrow> (Panic e, acts)
              | None \<Rightarrow> (case r2 of
                           Some e \<Rightarrow> (Panic e, acts @ acts2)
                         | None \<Rightarrow> (Return (Dev (Some app1), None), acts @ acts2)))
       \<and> (\<forall>a e x. NewWebserver L False rh w \<noteq> (Return (a, Some e), x))
       \<and> (Start_err w = Some e \<longrightarrow> r = Some e)
       \<and> (Start_err w = None \<and> startup_select w = Timer n
            \<longrightarrow> r = Some ''timeout starting child process'')
       \<and> (filepath_Abs w' = Inr dir \<and> StderrPipe_err w' = Some e'
            \<longrightarrow> NewWebserver L False rh w' = (Return (Dev None, Some e'), []))
       \<and> (filepath_Abs w' = Inl e' \<longrightarrow> NewWebserver L False rh w' = (Panic e', []))
       \<and> (NewWebserver L False rh w' = (Return (a', Some e'), x')
            \<longrightarrow> (\<exists>d. filepath_Abs w' = Inr d) \<and> StderrPipe_err w' = Some e'
                \<and> a' = Dev None \<and> x' = [])"
proof -
  have a: "NewWebserver L False rh w
           = (case r of
                Some e \<Rightarrow> (Panic e, acts)
              | None \<Rightarrow> (case r2 of
                           Some e \<Rightarrow> (Panic e, acts @ acts2)
                         | None \<Rightarrow> (Return (Dev (Some app1), None), acts @ acts2)))"
    using assms by (simp add: NewWebserver_def split: option.splits)
  then have b: "\<forall>a e x. NewWebserver L False rh w \<noteq> (Return (a, Some e), x)"
    by (simp split: option.splits)
  have c: "Start_err w = Some e \<longrightarrow> r = Some e"
    using assms(2) by (auto simp: AwaitReady_def)
  have d: "Start_err w = None \<and> startup_select w = Timer n
            \<longrightarrow> r = Some ''timeout starting child process''"
    using assms(2) by (auto simp: AwaitReady_def Let_def)
  have e: "filepath_Abs w' = Inr dir \<and> StderrPipe_err w' = Some e'
            \<longrightarrow> NewWebserver L False rh w' = (Return (Dev None, Some e'), [])"
    by (simp add: NewWebserver_def newDevAppServer_def)
  have f: "filepath_Abs w' = Inl e' \<longrightarrow> NewWebserver L False rh w' = (Panic e', [])"
    by (simp add: NewWebserver_def newDevAppServer_def)
  have g: "NewWebserver L False rh w' = (Return (a', Some e'), x')
            \<longrightarrow> (\<exists>d. filepath_Abs w' = Inr d) \<and> StderrPipe_err w' = Some e'
                \<and> a' = Dev None \<and> x' = []"
    by (rule NewWebserver_returned_error)
  from a b c d e f g show ?thesis by blast
qed

theorem NewWebserver_failures_witness:
  "NewWebserver example_lib False ''staging.wpt.fyi'' example_world
     = (Panic ''exit status 1'',
        [cmd_Start, time_After 90000000000,
         populate_Start [''go'', ''run'', ''../util/populate_dev_data.go'',
                         ''--local_host=localhost:8080'',
                         ''--local_remote_api_host=localhost:9090'',
                         ''--remote_runs=false'', ''--static_runs=true''],
         populate_Wait])
   \<and> NewWebserver example_lib False ''staging.wpt.fyi'' pipe_failing_world
     = (Return (Dev None, Some ''exec: Stderr already set''), [])
   \<and> NewWebserver example_lib False ''staging.wpt.fyi'' abs_failing_world
     = (Panic ''getwd: no such file or directory'', [])"
proof -
  have n: "newDevAppServer (pickUnusedPort1 example_world) (pickUnusedPort2 example_world)
             (filepath_Abs example_world) (StderrPipe_err example_world)
           = Return (Some example_instance, None)"
    using newDevAppServer_example by (simp add: example_world_fields)
  have ar: "AwaitReady example_lib example_instance (Start_err example_world)
              (stderr_tokens example_world) (stderr_final example_world)
              (startup_select example_world)
            = (example_ready, None, [cmd_Start, time_After 90000000000])"
    using example_run by (simp add: example_world_fields)
  have sd: "addStaticData example_ready (populate_Start_err example_world)
              (populate_Wait_err example_world)
            = (Some ''exit status 1'',
               [populate_Start [''go'', ''run'', ''../util/populate_dev_data.go'',
                                ''--local_host=localhost:8080'',
                                ''--local_remote_api_host=localhost:9090'',
                                ''--remote_runs=false'', ''--static_runs=true''],
                populate_Wait])"
    using example_seeding by (simp add: example_world_fields)
  note t = NewWebserver_failures [OF n ar sd, where rh = "''staging.wpt.fyi''"
      and w' = pipe_failing_world and dir = "''/wpt.fyi/webapp''"
      and e' = "''exec: Stderr already set''"]
  note t2 = NewWebserver_failures [OF n ar sd, where rh = "''staging.wpt.fyi''"
      and w' = abs_failing_world and e' = "''getwd: no such file or directory''"]
  have 1: "NewWebserver example_lib False ''staging.wpt.fyi'' example_world
     = (Panic ''exit status 1'',
        [cmd_Start, time_After 90000000000,
         populate_Start [''go'', ''run'', ''../util/populate_dev_data.go'',
                         ''--local_host=localhost:8080'',
                         ''--local_remote_api_host=localhost:9090'',
                         ''--remote_runs=false'', ''--static_runs=true''],
         populate_Wait])"
    using t [THEN conjunct1] by simp
  have 2: "NewWebserver example_lib False ''staging.wpt.fyi'' pipe_failing_world
     = (Return (Dev None, Some ''exec: Stderr already set''), [])"
    using t [THEN conjunct2, THEN conjunct2, THEN conjunct2, THEN conjunct2, THEN conjunct1]
    by (simp add: pipe_failing_world_def example_world_def)
  have 3: "NewWebserver example_lib False ''staging.wpt.fyi'' abs_failing_world
     = (Panic ''getwd: no such file or directory'', [])"
    using t2 [THEN conjunct2, THEN conjunct2, THEN conjunct2, THEN conjunct2, THEN conjunct2,
              THEN conjunct1]
    by (simp add: abs_failing_world_def example_world_def)
  from 1 2 3 show ?thesis by simp
qed

text \<open>
  C8 as it is stated fails: when the child cannot be started, \<open>NewWebserver\<close> does not
  return; it panics.
\<close>

theorem NewWebserver_counterexample:
  \<open>NewWebserver example_lib False ''staging.wpt.fyi'' failing_world
     = (Panic ''exec: "dev_appserver.py": executable file not found in $PATH'', [cmd_Start])\<close>
  by (simp add: NewWebserver_def newDevAppServer_def AwaitReady_def failing_world_def)

text \<open>
  C9. A line that contains \<^verbatim>\<open>GET /_ah/warmup\<close> ends the scan before either endpoint
  pattern is tried on it: the instance is left as it was, whatever else the line contains,
  and nothing that follows the line changes what the scan or \<open>AwaitReady\<close> returns.
\<close>

theorem ready_line_ends_scan:
  assumes "sublist ''GET /_ah/warmup'' line"
  shows "scan_stderr L i ((line, e) # post) final = (i, e)
       \<and> scan_stderr L i (pre @ (line, e) # post) final = scan_stderr L i (pre @ [(line, e)]) final'
       \<and> fst (scan_stderr L i (pre @ (line, e) # post) final) = fst (scan_stderr L i pre final')
       \<and> AwaitReady L i start_err (pre @ (line, e) # post) final sel
           = AwaitReady L i start_err (pre @ (line, e) # post') final' sel"
proof -
  have r: "FindStringSubmatch readyRE line \<noteq> None" using assms ready_iff by blast
  have a: "scan_stderr L i ((line, e) # post) final = (i, e)" using r by simp
  have b: "scan_stderr L i (pre @ (line, e) # post) final = scan_stderr L i (pre @ [(line, e)]) final'"
    by (rule scan_stderr_append_ready [OF r])
  have c: "fst (scan_stderr L i (pre @ (line, e) # post) final) = fst (scan_stderr L i pre final')"
    by (rule scan_stderr_fst_ready [OF r])
  have d: "AwaitReady L i start_err (pre @ (line, e) # post) final sel
           = AwaitReady L i start_err (pre @ (line, e) # post') final' sel"
  proof (cases sel)
    case (Timer n)
    then show ?thesis
      using scan_stderr_take_ready [OF r, of L "i\<lparr>process := True\<rparr>" n pre e post final post' final']
      by (simp add: AwaitReady_def Let_def split: option.splits)
  next
    case Errc
    have "scan_stderr L (i\<lparr>process := True\<rparr>) (pre @ (line, e) # post) final
        = scan_stderr L (i\<lparr>process := True\<rparr>) (pre @ (line, e) # post') final'"
      using scan_stderr_append_ready [OF r, of L "i\<lparr>process := True\<rparr>" pre e post final final']
            scan_stderr_append_ready [OF r, of L "i\<lparr>process := True\<rparr>" pre e post' final' final']
      by simp
    then show ?thesis using Errc by (cases start_err) (simp_all add: AwaitReady_def Let_def)
  qed
  from a b c d show ?thesis by blast
qed

theorem ready_line_ends_scan_witness:
  "sublist ''GET /_ah/warmup'' both_line
   \<and> FindStringSubmatch hostRE both_line \<noteq> None
   \<and> scan_stderr example_lib example_instance ((both_line, None) # clean [admin_line]) None
       = (example_instance, None)
   \<and> AwaitReady example_lib example_instance None ([] @ (both_line, None) # clean [admin_line]) None Errc
       = AwaitReady example_lib example_instance None ([] @ (both_line, None) # []) None Errc"
  using ready_line_ends_scan [OF both_line_matches(1), of example_lib example_instance None
      "clean [admin_line]" None "[]" None None Errc "[]"] both_line_matches
  by simp

text \<open>
  C10. The local \<open>GetWebappURL\<close> returns a value for every instance and path: without a
  discovered base URL it is \<^verbatim>\<open>http://\<close>, the host, a colon, the port and the path (for an
  instance fresh from \<open>newDevAppServer\<close> the host is \<^verbatim>\<open>localhost\<close> and the port the first
  picked port); with a discovered base URL it is the string form of that URL followed by
  the path.
\<close>

theorem GetWebappURL_local:
  "(baseURL i = None \<longrightarrow>
      GetWebappURL L i path = ''http://'' @ host i @ '':'' @ fmt_d (sint (port i)) @ path)
   \<and> (\<forall>u. baseURL i = Some u \<longrightarrow> GetWebappURL L i path = url_String L u @ path)
   \<and> (newDevAppServer p1 p2 (Inr dir) None = Return (Some i, None) \<longrightarrow>
      GetWebappURL L i path = ''http://localhost:'' @ fmt_d (sint p1) @ path)"
  by (auto simp: GetWebappURL_def newDevAppServer_def)

theorem GetWebappURL_local_witness:
  "GetWebappURL example_lib example_instance ''/results'' = ''http://localhost:8080/results''
   \<and> GetWebappURL example_lib example_ready ''/results'' = ''http://localhost:8080/results''"
  using GetWebappURL_local [of example_instance example_lib "''/results''" 8080 9090 "''/wpt.fyi/webapp''"]
        GetWebappURL_local [of example_ready example_lib "''/results''"]
        newDevAppServer_example fmt_8080
  by (simp add: example_instance_def example_ready_def example_lib_def)

end
